theory Spec2Isabelle
  imports Main "HOL-Library.Word"
begin

unbundle bit_operations_syntax

section \<open>Go values used by the program\<close>

text \<open>
  A Go \<open>string\<close> is a sequence of bytes, which is what \<^typ>\<open>string\<close> is here.
  A Go \<open>error\<close> built with \<open>fmt.Errorf\<close> is modelled by its message text (the
  program only ever inspects \<open>err.Error()\<close>); the verb \<open>%w\<close> splices the wrapped
  error's text. A function returning \<open>(T, error)\<close> returns \<open>error + T\<close>, a
  function returning only \<open>error\<close> returns \<open>error option\<close> (\<open>None\<close> is \<open>nil\<close>).
\<close>

type_synonym byte = "8 word"
type_synonym error = string

text \<open>\<open>strings.HasPrefix(s, prefix)\<close>: \<open>len(s) >= len(prefix) && s[:len(prefix)] == prefix\<close>.\<close>

definition HasPrefix :: "string \<Rightarrow> string \<Rightarrow> bool" where
  "HasPrefix s pre = (length pre \<le> length s \<and> take (length pre) s = pre)"

text \<open>\<open>strings.Contains(s, substr)\<close>: \<open>substr\<close> occurs in \<open>s\<close> at some offset.\<close>

fun Contains :: "string \<Rightarrow> string \<Rightarrow> bool" where
  "Contains [] substr = (substr = [])"
| "Contains (c # s) substr = (HasPrefix (c # s) substr \<or> Contains s substr)"

text \<open>
  \<open>strings.ToLower\<close> on a string of ASCII bytes: the letters \<open>A\<close> to \<open>Z\<close> move to
  \<open>a\<close> to \<open>z\<close>, every other byte stays.
\<close>

definition lower_byte :: "char \<Rightarrow> char" where
  "lower_byte c =
     (let n = (of_char c :: nat) in if 65 \<le> n \<and> n \<le> 90 then char_of (n + 32) else c)"

definition ToLower :: "string \<Rightarrow> string" where
  "ToLower s = map lower_byte s"

text \<open>
  \<open>hex.EncodeToString\<close>: each byte \<open>v\<close> gives \<open>hextable[v>>4]\<close> then
  \<open>hextable[v&0x0f]\<close>.
\<close>

definition hextable :: string where
  "hextable = ''0123456789abcdef''"

fun EncodeToString :: "byte list \<Rightarrow> string" where
  "EncodeToString [] = []"
| "EncodeToString (v # src) =
     hextable ! unat (drop_bit 4 v) # hextable ! unat (v AND 0x0f) # EncodeToString src"

text \<open>
  \<open>fmt.Sprintf("%d", n)\<close> for an unsigned integer: its decimal digits, most
  significant first, no padding.
\<close>

function fmt_d :: "nat \<Rightarrow> string" where
  "fmt_d n = (if n < 10 then [char_of (48 + n)] else fmt_d (n div 10) @ [char_of (48 + n mod 10)])"
  by pat_completeness auto
termination
  by (relation "measure (\<lambda>n. n)") auto

declare fmt_d.simps [simp del]

section \<open>Package ref\<close>

text \<open>
  \<open>func Digest32ToSha256String(d [32]byte) string\<close>. The array is a list of bytes;
  its length, 32, is a hypothesis wherever it matters.
\<close>

definition Digest32ToSha256String :: "byte list \<Rightarrow> string" where
  "Digest32ToSha256String d = ''sha256:'' @ ToLower (EncodeToString d)"

text \<open>\<open>func BuildReference(registry string, digest string) (string, error)\<close>.\<close>

definition BuildReference :: "string \<Rightarrow> string \<Rightarrow> error + string" where
  "BuildReference registry digest =
     (if registry = [] then Inl ''empty registry''
      else if Contains registry ''@sha256:'' then Inr registry
      else if \<not> HasPrefix digest ''sha256:'' then Inl ''invalid digest format''
      else Inr (registry @ ''@'' @ digest))"

section \<open>Package eth: releases and the release registry\<close>

text \<open>\<open>common.Address\<close> is \<open>[20]byte\<close>; \<open>Digest32\<close> is \<open>[32]byte\<close>.\<close>

type_synonym address = "byte list"

record Artifact =
  Registry :: string
  Digest32 :: "byte list"

record Release =
  Artifacts :: "Artifact list"
  UpgradeByTime :: "32 word"

text \<open>
  \<open>type ReleaseManagerClient interface\<close>: its two methods. The \<open>context.Context\<close>
  argument carries cancellation only and is left out.
\<close>

record ReleaseManagerClient =
  GetLatestRelease :: "address \<Rightarrow> 32 word \<Rightarrow> error + Release \<times> 64 word"
  GetRelease :: "address \<Rightarrow> 32 word \<Rightarrow> 64 word \<Rightarrow> error + Release"

section \<open>Package docker\<close>

record RunOptions =
  opt_Name :: string
  opt_Detached :: bool
  opt_Env :: "string \<rightharpoonup> string"
  opt_Cmd :: "string list"

text \<open>
  \<open>type Docker interface\<close>: \<open>Pull\<close> and \<open>Run\<close> act on the container runtime,
  whose state \<open>'d\<close> they take and return.
\<close>

record 'd Docker =
  Pull :: "string \<Rightarrow> 'd \<Rightarrow> error option \<times> 'd"
  Run :: "string \<Rightarrow> RunOptions \<Rightarrow> 'd \<Rightarrow> error option \<times> 'd"

section \<open>Package controller\<close>

record 'd Controller =
  RM :: ReleaseManagerClient
  Docker :: "'d Docker"

text \<open>\<open>ReleaseID *uint64\<close>: \<open>None\<close> is the nil pointer, the latest release.\<close>

record RunConfig =
  AVS :: address
  OperatorSetID :: "32 word"
  ReleaseID :: "64 word option"
  ReleaseManager :: address
  RPCURL :: string
  Name :: string
  Detached :: bool
  Env :: "string \<rightharpoonup> string"
  Cmd :: "string list"

text \<open>
  \<open>func (c *Controller) Execute(ctx context.Context, cfg RunConfig) error\<close>.
  \<open>common.Address.Hex\<close> belongs to go-ethereum (the checksummed hexadecimal text of
  the address) and is the parameter \<open>Hex\<close>.
\<close>

definition Execute ::
  "(address \<Rightarrow> string) \<Rightarrow> 'd Controller \<Rightarrow> RunConfig \<Rightarrow> 'd \<Rightarrow> error option \<times> 'd" where
  "Execute Hex c cfg s =
     (case
        (case ReleaseID cfg of
           None \<Rightarrow>
             (case GetLatestRelease (RM c) (AVS cfg) (OperatorSetID cfg) of
                Inl errMsg \<Rightarrow>
                  if Contains errMsg ''arithmetic underflow'' \<or> Contains errMsg ''NoReleases''
                  then Inl (''no releases available for this operator set\<newline>\<newline>To push a release, run:\<newline>  flickr push --image <your-image>\<newline>\<newline>Current configuration:\<newline>  AVS: ''
                            @ Hex (AVS cfg) @ ''\<newline>  Operator Set: ''
                            @ fmt_d (unat (OperatorSetID cfg)))
                  else if Contains errMsg ''array out-of-bounds''
                  then Inl ''no releases found (the operator set may not have any releases yet)\<newline>\<newline>To push a release, run:\<newline>  flickr push --image <your-image>''
                  else Inl (''failed to get latest release: '' @ errMsg)
              | Inr (rel, relID) \<Rightarrow> Inr (rel, relID))
         | Some releaseID \<Rightarrow>
             (case GetRelease (RM c) (AVS cfg) (OperatorSetID cfg) releaseID of
                Inl errMsg \<Rightarrow>
                  if Contains errMsg ''array out-of-bounds''
                  then Inl (''release ID '' @ fmt_d (unat releaseID) @ '' does not exist'')
                  else Inl (''failed to get release '' @ fmt_d (unat releaseID) @ '': '' @ errMsg)
              | Inr rel \<Rightarrow> Inr (rel, releaseID)))
      of
        Inl e \<Rightarrow> (Some e, s)
      | Inr (rel, relID) \<Rightarrow>
          if length (Artifacts rel) = 0 then (Some ''no artifacts in release'', s)
          else
            let art = Artifacts rel ! 0;
                digest = Digest32ToSha256String (Digest32 art)
            in (case BuildReference (Registry art) digest of
                  Inl e \<Rightarrow> (Some (''failed to build reference: '' @ e), s)
                | Inr reference \<Rightarrow>
                    (case Pull (Docker c) reference s of
                       (Some e, s1) \<Rightarrow> (Some (''failed to pull image: '' @ e), s1)
                     | (None, s1) \<Rightarrow>
                         let env = [''AVS_ADDRESS'' \<mapsto> Hex (AVS cfg),
                                    ''OPERATOR_SET_ID'' \<mapsto> fmt_d (unat (OperatorSetID cfg)),
                                    ''RELEASE_ID'' \<mapsto> fmt_d (unat relID),
                                    ''UPGRADE_BY_TIME'' \<mapsto> fmt_d (unat (UpgradeByTime rel))]
                                   ++ Env cfg;
                             runOpts = \<lparr>opt_Name = Name cfg, opt_Detached = Detached cfg,
                                        opt_Env = env, opt_Cmd = Cmd cfg\<rparr>
                         in (case Run (Docker c) reference runOpts s1 of
                               (Some e, s2) \<Rightarrow> (Some (''failed to run container: '' @ e), s2)
                             | (None, s2) \<Rightarrow> (None, s2)))))"

subsection \<open>The calls a run makes to the container runtime\<close>

text \<open>
  A runtime that keeps, beside the state of the runtime it wraps, the list of the calls
  it has received, oldest first.
\<close>

datatype docker_call = PullCall string | RunCall string RunOptions

fun call_ref :: "docker_call \<Rightarrow> string" where
  "call_ref (PullCall reference) = reference"
| "call_ref (RunCall reference opts) = reference"

definition traced :: "'d Docker \<Rightarrow> (docker_call list \<times> 'd) Docker" where
  "traced dk =
     \<lparr>Pull = (\<lambda>reference (calls, s).
               case Pull dk reference s of (e, s') \<Rightarrow> (e, (calls @ [PullCall reference], s'))),
      Run = (\<lambda>reference opts (calls, s).
               case Run dk reference opts s of (e, s') \<Rightarrow> (e, (calls @ [RunCall reference opts], s')))\<rparr>"

subsection \<open>The mocks of the controller's tests\<close>

text \<open>\<open>type mockRM struct\<close> and its two methods.\<close>

record mockRM =
  m_latest :: Release
  m_latestID :: "64 word"
  m_rel :: Release
  m_err :: "error option"
  m_latestErr :: "error option"

definition mockRM_GetLatestRelease :: "mockRM \<Rightarrow> address \<Rightarrow> 32 word \<Rightarrow> error + Release \<times> 64 word" where
  "mockRM_GetLatestRelease m avs opSetID =
     (case m_latestErr m of Some e \<Rightarrow> Inl e | None \<Rightarrow> Inr (m_latest m, m_latestID m))"

definition mockRM_GetRelease :: "mockRM \<Rightarrow> address \<Rightarrow> 32 word \<Rightarrow> 64 word \<Rightarrow> error + Release" where
  "mockRM_GetRelease m avs opSetID releaseID =
     (case m_err m of Some e \<Rightarrow> Inl e | None \<Rightarrow> Inr (m_rel m))"

definition mockRM_client :: "mockRM \<Rightarrow> ReleaseManagerClient" where
  "mockRM_client m =
     \<lparr>GetLatestRelease = mockRM_GetLatestRelease m, GetRelease = mockRM_GetRelease m\<rparr>"

text \<open>\<open>type captureDocker struct\<close> and its two methods.\<close>

record captureDocker =
  cd_pulled :: string
  cd_ran :: string
  cd_env :: "string \<rightharpoonup> string"
  cd_runOpts :: RunOptions
  cd_pullErr :: "error option"
  cd_runErr :: "error option"

definition captureDocker_Pull :: "string \<Rightarrow> captureDocker \<Rightarrow> error option \<times> captureDocker" where
  "captureDocker_Pull reference d = (cd_pullErr d, d\<lparr>cd_pulled := reference\<rparr>)"

definition captureDocker_Run ::
  "string \<Rightarrow> RunOptions \<Rightarrow> captureDocker \<Rightarrow> error option \<times> captureDocker" where
  "captureDocker_Run reference opts d =
     (cd_runErr d, d\<lparr>cd_ran := reference, cd_env := opt_Env opts, cd_runOpts := opts\<rparr>)"

definition captureDocker_Docker :: "captureDocker Docker" where
  "captureDocker_Docker = \<lparr>Pull = captureDocker_Pull, Run = captureDocker_Run\<rparr>"

text \<open>\<open>&captureDocker{}\<close>: every field at its zero value.\<close>

definition captureDocker_zero :: captureDocker where
  "captureDocker_zero =
     \<lparr>cd_pulled = [], cd_ran = [], cd_env = Map.empty,
      cd_runOpts = \<lparr>opt_Name = [], opt_Detached = False, opt_Env = Map.empty, opt_Cmd = []\<rparr>,
      cd_pullErr = None, cd_runErr = None\<rparr>"

section \<open>Package signer\<close>

text \<open>
  \<open>type ECDSASigner struct\<close> and \<open>type KeystoreSigner struct\<close>: a private key (of
  a type \<open>'k\<close>, go-ethereum's \<open>*ecdsa.PrivateKey\<close>) and the address derived from it.
\<close>

record 'k ECDSASigner =
  es_privateKey :: 'k
  es_address :: address

record 'k KeystoreSigner =
  ks_privateKey :: 'k
  ks_address :: address

text \<open>
  \<open>func (s *ECDSASigner) SignMessage(msg []byte) ([]byte, error)\<close>.
  \<open>accounts.TextHash\<close> and \<open>crypto.Sign\<close> belong to go-ethereum and are the
  parameters \<open>TextHash\<close> and \<open>Sign\<close>. The read \<open>sig[64]\<close> panics on a slice
  of fewer than 65 bytes: the result \<open>None\<close>.
\<close>

definition ECDSASigner_SignMessage ::
  "(byte list \<Rightarrow> byte list) \<Rightarrow> (byte list \<Rightarrow> 'k \<Rightarrow> error + byte list) \<Rightarrow>
   'k ECDSASigner \<Rightarrow> byte list \<Rightarrow> (error + byte list) option" where
  "ECDSASigner_SignMessage TextHash Sign s msg =
     (let prefixedMsg = TextHash msg in
      case Sign prefixedMsg (es_privateKey s) of
        Inl e \<Rightarrow> Some (Inl (''failed to sign message: '' @ e))
      | Inr sig \<Rightarrow>
          if length sig \<le> 64 then None
          else if sig ! 64 < 27 then Some (Inr (sig[64 := sig ! 64 + 27]))
          else Some (Inr sig))"

text \<open>\<open>func (s *KeystoreSigner) SignMessage(msg []byte) ([]byte, error)\<close>.\<close>

definition KeystoreSigner_SignMessage ::
  "(byte list \<Rightarrow> byte list) \<Rightarrow> (byte list \<Rightarrow> 'k \<Rightarrow> error + byte list) \<Rightarrow>
   'k KeystoreSigner \<Rightarrow> byte list \<Rightarrow> (error + byte list) option" where
  "KeystoreSigner_SignMessage TextHash Sign s msg =
     (let ecdsaSigner = \<lparr>es_privateKey = ks_privateKey s, es_address = ks_address s\<rparr>
      in ECDSASigner_SignMessage TextHash Sign ecdsaSigner msg)"

section \<open>Package eth: write operations\<close>

text \<open>
  \<open>type Signer interface\<close>, the two methods the client calls; \<open>'tx\<close> is
  \<open>*types.Transaction\<close>, the chain id a \<open>*big.Int\<close>.
\<close>

record 'tx Signer =
  Address :: address
  SignTransaction :: "'tx \<Rightarrow> int \<Rightarrow> error + 'tx"

text \<open>The three queries the write operations send through \<open>ethclient.Client\<close>.\<close>

record EthClient =
  ChainID :: "error + int"
  PendingNonceAt :: "address \<Rightarrow> error + 64 word"
  SuggestGasPrice :: "error + int"

text \<open>\<open>bind.TransactOpts\<close>, with its signing callback \<open>Signer\<close>.\<close>

record 'tx TransactOpts =
  From :: address
  Nonce :: int
  GasLimit :: "64 word"
  GasPrice :: int
  Signer :: "address \<Rightarrow> 'tx \<Rightarrow> error + 'tx"

text \<open>The contract binding's argument types and its two transacting methods.\<close>

record OperatorSet =
  os_Avs :: address
  os_Id :: "32 word"

record IReleaseManagerTypesArtifact =
  c_Registry :: string
  c_Digest :: "byte list"

record IReleaseManagerTypesRelease =
  c_Artifacts :: "IReleaseManagerTypesArtifact list"
  c_UpgradeByTime :: "32 word"

record 'tx ReleaseManagerContract =
  rm_PublishMetadataURI :: "'tx TransactOpts \<Rightarrow> OperatorSet \<Rightarrow> string \<Rightarrow> error + 'tx"
  rm_PublishRelease ::
    "'tx TransactOpts \<Rightarrow> OperatorSet \<Rightarrow> IReleaseManagerTypesRelease \<Rightarrow> error + 'tx"

text \<open>\<open>type Client struct\<close>: \<open>signer\<close> is \<open>None\<close> when no signer is attached.\<close>

record 'tx Client =
  ethClient :: EthClient
  rmContract :: "'tx ReleaseManagerContract"
  signer :: "'tx Signer option"

text \<open>
  \<open>func (c *Client) PublishMetadataURI(ctx, avs, opSetID, uri, gasLimit)\<close>;
  \<open>big.NewInt(int64(nonce))\<close> reads the nonce as a signed 64-bit integer.
\<close>

definition PublishMetadataURI ::
  "'tx Client \<Rightarrow> address \<Rightarrow> 32 word \<Rightarrow> string \<Rightarrow> 64 word \<Rightarrow> error + 'tx" where
  "PublishMetadataURI c avs opSetID uri gasLimit =
     (case signer c of
        None \<Rightarrow> Inl ''signer required for publishing metadata URI''
      | Some sg \<Rightarrow>
          (case ChainID (ethClient c) of
             Inl e \<Rightarrow> Inl (''failed to get chain ID: '' @ e)
           | Inr chainID \<Rightarrow>
               (case PendingNonceAt (ethClient c) (Address sg) of
                  Inl e \<Rightarrow> Inl (''failed to get nonce: '' @ e)
                | Inr nonce \<Rightarrow>
                    (case SuggestGasPrice (ethClient c) of
                       Inl e \<Rightarrow> Inl (''failed to get gas price: '' @ e)
                     | Inr gasPrice \<Rightarrow>
                         let opts =
                               \<lparr>From = Address sg, Nonce = sint nonce, GasLimit = gasLimit,
                                GasPrice = gasPrice,
                                Signer = (\<lambda>address tx.
                                  if address \<noteq> Address sg then Inl ''unexpected signer address''
                                  else SignTransaction sg tx chainID)\<rparr>;
                             operatorSet = \<lparr>os_Avs = avs, os_Id = opSetID\<rparr>
                         in (case rm_PublishMetadataURI (rmContract c) opts operatorSet uri of
                               Inl e \<Rightarrow> Inl (''failed to publish metadata URI: '' @ e)
                             | Inr tx \<Rightarrow> Inr tx)))))"

text \<open>\<open>func (c *Client) PushRelease(ctx, avs, opSetID, artifacts, upgradeByTime, gasLimit)\<close>.\<close>

definition PushRelease ::
  "'tx Client \<Rightarrow> address \<Rightarrow> 32 word \<Rightarrow> Artifact list \<Rightarrow> 32 word \<Rightarrow> 64 word \<Rightarrow> error + 'tx" where
  "PushRelease c avs opSetID artifacts upgradeByTime gasLimit =
     (case signer c of
        None \<Rightarrow> Inl ''signer required for pushing releases''
      | Some sg \<Rightarrow>
          (case ChainID (ethClient c) of
             Inl e \<Rightarrow> Inl (''failed to get chain ID: '' @ e)
           | Inr chainID \<Rightarrow>
               (case PendingNonceAt (ethClient c) (Address sg) of
                  Inl e \<Rightarrow> Inl (''failed to get nonce: '' @ e)
                | Inr nonce \<Rightarrow>
                    (case SuggestGasPrice (ethClient c) of
                       Inl e \<Rightarrow> Inl (''failed to get gas price: '' @ e)
                     | Inr gasPrice \<Rightarrow>
                         let opts =
                               \<lparr>From = Address sg, Nonce = sint nonce, GasLimit = gasLimit,
                                GasPrice = gasPrice,
                                Signer = (\<lambda>address tx.
                                  if address \<noteq> Address sg then Inl ''unexpected signer address''
                                  else SignTransaction sg tx chainID)\<rparr>;
                             operatorSet = \<lparr>os_Avs = avs, os_Id = opSetID\<rparr>;
                             contractArtifacts =
                               map (\<lambda>artifact. \<lparr>c_Registry = Registry artifact,
                                                 c_Digest = Digest32 artifact\<rparr>) artifacts;
                             release = \<lparr>c_Artifacts = contractArtifacts,
                                        c_UpgradeByTime = upgradeByTime\<rparr>
                         in (case rm_PublishRelease (rmContract c) opts operatorSet release of
                               Inl e \<Rightarrow> Inl (''failed to publish release: '' @ e)
                             | Inr tx \<Rightarrow> Inr tx)))))"

text \<open>
  A transaction-construction layer that hands the address \<open>a\<close> and the unsigned
  transaction to the signing callback of the options it receives, and returns what the
  callback returns.
\<close>

definition presenting :: "address \<Rightarrow> 'tx \<Rightarrow> 'tx ReleaseManagerContract" where
  "presenting a unsignedTx =
     \<lparr>rm_PublishMetadataURI = (\<lambda>opts operatorSet uri. Signer opts a unsignedTx),
      rm_PublishRelease = (\<lambda>opts operatorSet release. Signer opts a unsignedTx)\<rparr>"

section \<open>Example inputs\<close>

text \<open>
  The plain hexadecimal text of an address. On an address whose hexadecimal digits are
  all decimal digits it is what \<open>common.Address.Hex\<close> returns (the checksum of that
  function changes the case of letters only).
\<close>

definition example_Hex :: "address \<Rightarrow> string" where
  "example_Hex a = ''0x'' @ EncodeToString a"

text \<open>The inputs of the controller's tests.\<close>

definition test_avs :: address where
  "test_avs = concat (replicate 4 [0x12, 0x34, 0x56, 0x78, 0x90])"

definition test_cfg :: RunConfig where
  "test_cfg =
     \<lparr>AVS = test_avs, OperatorSetID = 1, ReleaseID = None,
      ReleaseManager = concat (replicate 4 [0xab, 0xcd, 0xef, 0x12, 0x34]),
      RPCURL = ''https://eth.example.com'', Name = ''test-container'', Detached = True,
      Env = [''CUSTOM_VAR'' \<mapsto> ''custom_value''], Cmd = []\<rparr>"

definition test_cfg_42 :: RunConfig where
  "test_cfg_42 = test_cfg\<lparr>ReleaseID := Some 42\<rparr>"

definition test_cfg_pinned :: RunConfig where
  "test_cfg_pinned =
     test_cfg\<lparr>Env := [''CUSTOM_VAR'' \<mapsto> ''custom_value'', ''RELEASE_ID'' \<mapsto> ''pinned'']\<rparr>"

definition Release_zero :: Release where
  "Release_zero = \<lparr>Artifacts = [], UpgradeByTime = 0\<rparr>"

definition underflow_error :: error where
  "underflow_error = ''execution reverted: panic: arithmetic underflow or overflow (0x11)''"

definition mock_underflow :: mockRM where
  "mock_underflow =
     \<lparr>m_latest = Release_zero, m_latestID = 0, m_rel = Release_zero,
      m_err = Some underflow_error, m_latestErr = Some underflow_error\<rparr>"

definition no_artifacts :: Release where
  "no_artifacts = \<lparr>Artifacts = [], UpgradeByTime = 123\<rparr>"

definition mock_no_artifacts :: mockRM where
  "mock_no_artifacts =
     \<lparr>m_latest = no_artifacts, m_latestID = 1, m_rel = Release_zero,
      m_err = None, m_latestErr = None\<rparr>"

definition first_artifact :: Artifact where
  "first_artifact = \<lparr>Registry = ''first.io/image'', Digest32 = 0x11 # replicate 31 0\<rparr>"

definition second_artifact :: Artifact where
  "second_artifact = \<lparr>Registry = ''second.io/image'', Digest32 = 0x22 # replicate 31 0\<rparr>"

definition two_artifacts :: Release where
  "two_artifacts = \<lparr>Artifacts = [first_artifact, second_artifact], UpgradeByTime = 200\<rparr>"

definition mock_two_artifacts :: mockRM where
  "mock_two_artifacts =
     \<lparr>m_latest = two_artifacts, m_latestID = 9, m_rel = two_artifacts,
      m_err = None, m_latestErr = None\<rparr>"

definition mock_first_artifact :: mockRM where
  "mock_first_artifact =
     \<lparr>m_latest = two_artifacts\<lparr>Artifacts := [first_artifact]\<rparr>, m_latestID = 9,
      m_rel = two_artifacts\<lparr>Artifacts := [first_artifact]\<rparr>, m_err = None, m_latestErr = None\<rparr>"

text \<open>
  Stand-ins with the shapes of \<open>accounts.TextHash\<close> (a 32-byte hash) and
  \<open>crypto.Sign\<close> (65 bytes, the last one the recovery id), without their cryptography,
  and a signer, a chain and a client built on them.
\<close>

definition stub_TextHash :: "byte list \<Rightarrow> byte list" where
  "stub_TextHash msg = take 32 (msg @ replicate 32 0)"

definition stub_Sign :: "byte list \<Rightarrow> byte list \<Rightarrow> error + byte list" where
  "stub_Sign digestHash prv =
     (if length digestHash \<noteq> 32 then Inl ''hash is required to be exactly 32 bytes''
      else Inr (digestHash @ take 32 (prv @ replicate 32 0) @ [1]))"

definition test_key :: "byte list" where
  "test_key =
     [0xac, 0x09, 0x74, 0xbe, 0xc3, 0x9a, 0x17, 0xe3, 0x6b, 0xa4, 0xa6, 0xb4, 0xd2, 0x38,
      0xff, 0x94, 0x4b, 0xac, 0xb4, 0x78, 0xcb, 0xed, 0x5e, 0xfc, 0xae, 0x78, 0x4d, 0x7b,
      0xf4, 0xf2, 0xff, 0x80]"

definition test_signer_address :: address where
  "test_signer_address =
     [0xf3, 0x9f, 0xd6, 0xe5, 0x1a, 0xad, 0x88, 0xf6, 0xf4, 0xce, 0x6a, 0xb8, 0x82, 0x72,
      0x79, 0xcf, 0xff, 0xb9, 0x22, 0x66]"

definition test_message :: "byte list" where
  "test_message = map (\<lambda>c. of_nat (of_char c)) ''Hello, Flickr!''"

definition test_ecdsa :: "byte list ECDSASigner" where
  "test_ecdsa = \<lparr>es_privateKey = test_key, es_address = test_signer_address\<rparr>"

definition test_keystore :: "byte list KeystoreSigner" where
  "test_keystore = \<lparr>ks_privateKey = test_key, ks_address = test_signer_address\<rparr>"

definition stub_SignTransaction :: "string \<Rightarrow> int \<Rightarrow> error + string" where
  "stub_SignTransaction tx chainID = Inr (tx @ ''+signature'')"

definition test_signer :: "string Signer" where
  "test_signer = \<lparr>Address = test_signer_address, SignTransaction = stub_SignTransaction\<rparr>"

definition stub_PendingNonceAt :: "address \<Rightarrow> error + 64 word" where
  "stub_PendingNonceAt account = Inr 7"

definition test_eth :: EthClient where
  "test_eth =
     \<lparr>ChainID = Inr 31337, PendingNonceAt = stub_PendingNonceAt, SuggestGasPrice = Inr 20000000000\<rparr>"

definition mismatched_client :: "string Client" where
  "mismatched_client =
     \<lparr>ethClient = test_eth, rmContract = presenting test_avs ''unsigned'',
      signer = Some test_signer\<rparr>"

section \<open>Facts about the string functions\<close>

lemma HasPrefix_append: "HasPrefix (pre @ s) pre"
  by (simp add: HasPrefix_def)

lemma HasPrefix_iff: "HasPrefix s pre \<longleftrightarrow> (\<exists>t. s = pre @ t)"
proof
  assume "HasPrefix s pre"
  then have "s = pre @ drop (length pre) s"
    by (metis HasPrefix_def append_take_drop_id)
  then show "\<exists>t. s = pre @ t" ..
next
  assume "\<exists>t. s = pre @ t"
  then show "HasPrefix s pre" by (auto simp: HasPrefix_def)
qed

lemma Contains_append_left: "Contains s sub \<Longrightarrow> Contains (p @ s) sub"
  by (induction p) simp_all

lemma Contains_mid: "Contains (p @ sub @ t) sub"
proof (rule Contains_append_left)
  show "Contains (sub @ t) sub"
  proof (cases "sub @ t")
    case Nil
    then show ?thesis by simp
  next
    case (Cons c u)
    have "HasPrefix (sub @ t) sub" by (rule HasPrefix_append)
    with Cons show ?thesis by simp
  qed
qed

lemma Contains_iff: "Contains s sub \<longleftrightarrow> (\<exists>p t. s = p @ sub @ t)"
proof
  show "\<exists>p t. s = p @ sub @ t" if "Contains s sub"
    using that
  proof (induction s)
    case Nil
    then show ?case by simp
  next
    case (Cons c s)
    from Cons.prems consider "HasPrefix (c # s) sub" | "Contains s sub" by auto
    then show ?case
    proof cases
      case 1
      then obtain t where "c # s = sub @ t" by (auto simp: HasPrefix_iff)
      then have "c # s = [] @ sub @ t" by simp
      then show ?thesis by blast
    next
      case 2
      with Cons.IH obtain p t where "s = p @ sub @ t" by blast
      then have "c # s = (c # p) @ sub @ t" by simp
      then show ?thesis by blast
    qed
  qed
next
  assume "\<exists>p t. s = p @ sub @ t"
  then show "Contains s sub" by (auto simp: Contains_mid)
qed

lemma Contains_nonempty: "Contains s sub \<Longrightarrow> sub \<noteq> [] \<Longrightarrow> s \<noteq> []"
  by (cases s) simp_all

section \<open>Facts about hexadecimal encoding\<close>

lemma nibble_hi: "unat (drop_bit 4 (v::byte)) = unat v div 16"
  unfolding unat_drop_bit_eq by (simp add: drop_bit_eq_div)

lemma nibble_lo: "unat (v AND 0x0f :: byte) = unat v mod 16"
proof -
  have "v AND 0x0f = take_bit 4 v"
    by (simp add: take_bit_eq_mask mask_eq_exp_minus_1)
  also have "unat (take_bit 4 v) = take_bit 4 (unat v)"
    by (rule unsigned_take_bit_eq)
  finally show ?thesis by (simp add: take_bit_eq_mod)
qed

lemma hextable_lower: "n < 16 \<Longrightarrow> lower_byte (hextable ! n) = hextable ! n"
proof -
  assume n: "n < 16"
  have fixed: "\<forall>c \<in> set hextable. lower_byte c = c"
    by (simp add: hextable_def lower_byte_def)
  have "length hextable = 16"
    by (simp add: hextable_def)
  with n have "hextable ! n \<in> set hextable"
    by (simp add: nth_mem)
  with fixed show ?thesis by blast
qed

lemma byte_div_16: "unat (v :: byte) div 16 < 16"
proof -
  have "unat v < 256" using unsigned_less [of v, where ?'a = nat] by simp
  then show ?thesis by arith
qed

lemma ToLower_EncodeToString: "ToLower (EncodeToString d) = EncodeToString d"
  by (induction d) (simp_all add: ToLower_def hextable_lower nibble_hi nibble_lo byte_div_16)

lemma length_EncodeToString: "length (EncodeToString d) = 2 * length d"
  by (induction d) simp_all

lemma EncodeToString_nth:
  "i < length d \<Longrightarrow>
     EncodeToString d ! (2 * i) = hextable ! (unat (d ! i) div 16) \<and>
     EncodeToString d ! (2 * i + 1) = hextable ! (unat (d ! i) mod 16)"
proof (induction d arbitrary: i)
  case Nil
  then show ?case by simp
next
  case (Cons v d)
  show ?case
  proof (cases i)
    case 0
    then show ?thesis by (simp add: nibble_hi nibble_lo)
  next
    case (Suc j)
    with Cons.prems have "j < length d" by simp
    from Cons.IH [OF this] Suc show ?thesis by simp
  qed
qed

section \<open>Properties of package ref\<close>

text \<open>
  C8. For every 32-byte digest \<open>d\<close>, \<open>Digest32ToSha256String d\<close> has length 71 and
  starts with \<open>sha256:\<close>; the 64 characters after the prefix are, byte after byte in
  order, the two lowercase hexadecimal digits of the byte: the digit of its high nibble,
  then the digit of its low nibble.
\<close>

theorem Digest32ToSha256String_format:
  assumes "length d = 32"
  shows "length (Digest32ToSha256String d) = 71 \<and>
         take 7 (Digest32ToSha256String d) = ''sha256:'' \<and>
         (\<forall>i<32.
            Digest32ToSha256String d ! (7 + 2 * i) = ''0123456789abcdef'' ! (unat (d ! i) div 16) \<and>
            Digest32ToSha256String d ! (7 + 2 * i + 1) = ''0123456789abcdef'' ! (unat (d ! i) mod 16))"
proof -
  have eq: "Digest32ToSha256String d = ''sha256:'' @ EncodeToString d"
    by (simp add: Digest32ToSha256String_def ToLower_EncodeToString)
  have len: "length (Digest32ToSha256String d) = 71"
    using assms by (simp add: eq length_EncodeToString)
  have pre: "take 7 (Digest32ToSha256String d) = ''sha256:''"
    by (simp add: eq)
  have nth: "Digest32ToSha256String d ! (7 + k) = EncodeToString d ! k" for k
    unfolding eq by (simp add: nth_append)
  have body: "Digest32ToSha256String d ! (7 + 2 * i) = ''0123456789abcdef'' ! (unat (d ! i) div 16) \<and>
            Digest32ToSha256String d ! (7 + 2 * i + 1) = ''0123456789abcdef'' ! (unat (d ! i) mod 16)"
    if "i < 32" for i
  proof -
    from that assms have "i < length d" by simp
    from EncodeToString_nth [OF this] show ?thesis
      using nth [of "2 * i"] nth [of "2 * i + 1"] by (simp add: hextable_def add.assoc)
  qed
  from len pre body show ?thesis by blast
qed

theorem Digest32ToSha256String_format_witness:
  "length (replicate 32 (0xaa :: byte)) = 32 \<and>
   length (Digest32ToSha256String (replicate 32 0xaa)) = 71 \<and>
   take 7 (Digest32ToSha256String (replicate 32 0xaa)) = ''sha256:'' \<and>
   Digest32ToSha256String (replicate 32 0xaa) ! 7 = CHR ''a''"
proof -
  have h: "length (replicate 32 (0xaa :: byte)) = 32" by simp
  have d: "unat (0xaa :: byte) div 16 = 10" by simp
  from Digest32ToSha256String_format [OF h] h d show ?thesis
    by (auto dest!: spec [of _ 0])
qed

text \<open>
  C6. When the registry string contains \<open>@sha256:\<close>, \<open>BuildReference\<close> succeeds and
  returns the registry unchanged, whatever the digest string is: the digest is neither
  validated nor used.
\<close>

theorem BuildReference_passthrough:
  "Contains registry ''@sha256:'' \<Longrightarrow> BuildReference registry digest = Inr registry"
proof -
  assume c: "Contains registry ''@sha256:''"
  then have "registry \<noteq> []" by (rule Contains_nonempty) simp
  with c show ?thesis by (simp add: BuildReference_def)
qed

theorem BuildReference_passthrough_witness:
  "Contains ''ghcr.io/org/image@sha256:22'' ''@sha256:'' \<and>
   \<not> HasPrefix ''this-should-be-ignored'' ''sha256:'' \<and>
   BuildReference ''ghcr.io/org/image@sha256:22'' ''this-should-be-ignored'' =
     Inr ''ghcr.io/org/image@sha256:22''"
proof -
  have h: "Contains ''ghcr.io/org/image@sha256:22'' ''@sha256:''"
    by (simp add: HasPrefix_def)
  have n: "\<not> HasPrefix ''this-should-be-ignored'' ''sha256:''"
    by (simp add: HasPrefix_def)
  from BuildReference_passthrough [OF h, of "''this-should-be-ignored''"] h n
  show ?thesis by simp
qed




section \<open>Facts about the controller\<close>

lemma Execute_latest_no_releases_aux:
  assumes "ReleaseID cfg = None"
    and "GetLatestRelease rm (AVS cfg) (OperatorSetID cfg) = Inl errMsg"
    and "Contains errMsg ''arithmetic underflow'' \<or> Contains errMsg ''NoReleases''"
  shows "Execute Hex \<lparr>RM = rm, Docker = dk\<rparr> cfg s =
    (Some (''no releases available for this operator set\<newline>\<newline>To push a release, run:\<newline>  flickr push --image <your-image>\<newline>\<newline>Current configuration:\<newline>  AVS: ''
           @ Hex (AVS cfg) @ ''\<newline>  Operator Set: '' @ fmt_d (unat (OperatorSetID cfg))), s)"
  using assms unfolding Execute_def by simp

lemma Execute_specific_failure:
  assumes "ReleaseID cfg = Some releaseID"
    and "GetRelease rm (AVS cfg) (OperatorSetID cfg) releaseID = Inl errMsg"
  shows "Execute Hex \<lparr>RM = rm, Docker = dk\<rparr> cfg s =
    (Some (if Contains errMsg ''array out-of-bounds''
           then ''release ID '' @ fmt_d (unat releaseID) @ '' does not exist''
           else ''failed to get release '' @ fmt_d (unat releaseID) @ '': '' @ errMsg), s)"
  using assms unfolding Execute_def by simp

lemma Execute_resolved:
  assumes "(ReleaseID cfg = None \<and>
            GetLatestRelease (RM c) (AVS cfg) (OperatorSetID cfg) = Inr (rel, relID)) \<or>
           (ReleaseID cfg = Some relID \<and>
            GetRelease (RM c) (AVS cfg) (OperatorSetID cfg) relID = Inr rel)"
  shows "Execute Hex c cfg s =
     (if length (Artifacts rel) = 0 then (Some ''no artifacts in release'', s)
          else
            let art = Artifacts rel ! 0;
                digest = Digest32ToSha256String (Digest32 art)
            in (case BuildReference (Registry art) digest of
                  Inl e \<Rightarrow> (Some (''failed to build reference: '' @ e), s)
                | Inr reference \<Rightarrow>
                    (case Pull (Docker c) reference s of
                       (Some e, s1) \<Rightarrow> (Some (''failed to pull image: '' @ e), s1)
                     | (None, s1) \<Rightarrow>
                         let env = [''AVS_ADDRESS'' \<mapsto> Hex (AVS cfg),
                                    ''OPERATOR_SET_ID'' \<mapsto> fmt_d (unat (OperatorSetID cfg)),
                                    ''RELEASE_ID'' \<mapsto> fmt_d (unat relID),
                                    ''UPGRADE_BY_TIME'' \<mapsto> fmt_d (unat (UpgradeByTime rel))]
                                   ++ Env cfg;
                             runOpts = \<lparr>opt_Name = Name cfg, opt_Detached = Detached cfg,
                                        opt_Env = env, opt_Cmd = Cmd cfg\<rparr>
                         in (case Run (Docker c) reference runOpts s1 of
                               (Some e, s2) \<Rightarrow> (Some (''failed to run container: '' @ e), s2)
                             | (None, s2) \<Rightarrow> (None, s2)))))"
  using assms unfolding Execute_def by (elim disjE conjE) simp_all

lemma Execute_empty:
  assumes "(ReleaseID cfg = None \<and>
            GetLatestRelease rm (AVS cfg) (OperatorSetID cfg) = Inr (rel, relID)) \<or>
           (ReleaseID cfg = Some relID \<and>
            GetRelease rm (AVS cfg) (OperatorSetID cfg) relID = Inr rel)"
    and "Artifacts rel = []"
  shows "Execute Hex \<lparr>RM = rm, Docker = dk\<rparr> cfg s = (Some ''no artifacts in release'', s)"
  using assms by (subst Execute_resolved [where rel = rel and relID = relID]) simp_all

lemma Execute_first:
  assumes "(ReleaseID cfg = None \<and>
            GetLatestRelease rm (AVS cfg) (OperatorSetID cfg) = Inr (rel, relID)) \<or>
           (ReleaseID cfg = Some relID \<and>
            GetRelease rm (AVS cfg) (OperatorSetID cfg) relID = Inr rel)"
    and "Artifacts rel = art # rest"
  shows "Execute Hex \<lparr>RM = rm, Docker = dk\<rparr> cfg s =
     (case BuildReference (Registry art) (Digest32ToSha256String (Digest32 art)) of
        Inl e \<Rightarrow> (Some (''failed to build reference: '' @ e), s)
      | Inr reference \<Rightarrow>
          (case Pull dk reference s of
             (Some e, s1) \<Rightarrow> (Some (''failed to pull image: '' @ e), s1)
           | (None, s1) \<Rightarrow>
               (case Run dk reference
                       \<lparr>opt_Name = Name cfg, opt_Detached = Detached cfg,
                        opt_Env = [''AVS_ADDRESS'' \<mapsto> Hex (AVS cfg),
                                   ''OPERATOR_SET_ID'' \<mapsto> fmt_d (unat (OperatorSetID cfg)),
                                   ''RELEASE_ID'' \<mapsto> fmt_d (unat relID),
                                   ''UPGRADE_BY_TIME'' \<mapsto> fmt_d (unat (UpgradeByTime rel))]
                                  ++ Env cfg,
                        opt_Cmd = Cmd cfg\<rparr> s1 of
                  (Some e, s2) \<Rightarrow> (Some (''failed to run container: '' @ e), s2)
                | (None, s2) \<Rightarrow> (None, s2))))"
  using assms by (subst Execute_resolved [where rel = rel and relID = relID])
    (simp_all add: Let_def cong: sum.case_cong prod.case_cong option.case_cong)

lemma traced_Pull:
  "Pull (traced dk) reference (calls, s) =
     (fst (Pull dk reference s), (calls @ [PullCall reference], snd (Pull dk reference s)))"
  by (simp add: traced_def split: prod.splits)

lemma traced_Run:
  "Run (traced dk) reference opts (calls, s) =
     (fst (Run dk reference opts s), (calls @ [RunCall reference opts], snd (Run dk reference opts s)))"
  by (simp add: traced_def split: prod.splits)


lemma Execute_traced_calls:
  assumes "(ReleaseID cfg = None \<and>
            GetLatestRelease rm (AVS cfg) (OperatorSetID cfg) = Inr (rel, relID)) \<or>
           (ReleaseID cfg = Some relID \<and>
            GetRelease rm (AVS cfg) (OperatorSetID cfg) relID = Inr rel)"
    and "Artifacts rel = art # rest"
  shows "fst (snd (Execute Hex \<lparr>RM = rm, Docker = traced dk\<rparr> cfg ([], s))) =
     (case BuildReference (Registry art) (Digest32ToSha256String (Digest32 art)) of
        Inl e \<Rightarrow> []
      | Inr reference \<Rightarrow>
          if fst (Pull dk reference s) = None
          then [PullCall reference,
                RunCall reference
                  \<lparr>opt_Name = Name cfg, opt_Detached = Detached cfg,
                   opt_Env = [''AVS_ADDRESS'' \<mapsto> Hex (AVS cfg),
                              ''OPERATOR_SET_ID'' \<mapsto> fmt_d (unat (OperatorSetID cfg)),
                              ''RELEASE_ID'' \<mapsto> fmt_d (unat relID),
                              ''UPGRADE_BY_TIME'' \<mapsto> fmt_d (unat (UpgradeByTime rel))]
                             ++ Env cfg,
                   opt_Cmd = Cmd cfg\<rparr>]
          else [PullCall reference])"
  unfolding Execute_first [OF assms, of Hex "traced dk" "([], s)"]
  by (auto simp: traced_Pull traced_Run split: sum.splits option.splits prod.splits)

subsection \<open>The example inputs evaluated\<close>

lemma test_cfg_latest: "ReleaseID test_cfg = None"
  by (simp add: test_cfg_def)

lemma mock_underflow_latest:
  "GetLatestRelease (mockRM_client mock_underflow) (AVS test_cfg) (OperatorSetID test_cfg) =
     Inl underflow_error"
  by (simp add: mockRM_client_def mockRM_GetLatestRelease_def mock_underflow_def)

lemma underflow_error_matches:
  "Contains underflow_error ''arithmetic underflow'' \<or> Contains underflow_error ''NoReleases''"
  by code_simp

lemma example_Hex_test_avs:
  "example_Hex (AVS test_cfg) = ''0x1234567890123456789012345678901234567890''"
  by code_simp

lemma fmt_d_test_opset: "fmt_d (unat (OperatorSetID test_cfg)) = ''1''"
  by code_simp

lemma mock_two_artifacts_latest:
  "GetLatestRelease (mockRM_client mock_two_artifacts) (AVS test_cfg) (OperatorSetID test_cfg) =
     Inr (two_artifacts, 9)"
  by (simp add: mockRM_client_def mockRM_GetLatestRelease_def mock_two_artifacts_def)


lemma test_cfg_42_specific: "ReleaseID test_cfg_42 = Some 42"
  by (simp add: test_cfg_42_def test_cfg_def)

lemma mock_underflow_specific:
  "GetRelease (mockRM_client mock_underflow) (AVS test_cfg_42) (OperatorSetID test_cfg_42) 42 =
     Inl underflow_error"
  by (simp add: mockRM_client_def mockRM_GetRelease_def mock_underflow_def)

lemma underflow_error_not_bounds: "\<not> Contains underflow_error ''array out-of-bounds''"
  by code_simp

lemma fmt_d_42: "fmt_d 42 = ''42''"
  by code_simp

lemma two_artifacts_list: "Artifacts two_artifacts = first_artifact # second_artifact # []"
  by (simp add: two_artifacts_def)

lemma mock_first_artifact_latest:
  "GetLatestRelease (mockRM_client mock_first_artifact) (AVS test_cfg) (OperatorSetID test_cfg) =
     Inr (two_artifacts\<lparr>Artifacts := [first_artifact]\<rparr>, 9)"
  by (simp add: mockRM_client_def mockRM_GetLatestRelease_def mock_first_artifact_def)

lemma mock_two_artifacts_specific:
  "GetRelease (mockRM_client mock_two_artifacts) (AVS test_cfg_42) (OperatorSetID test_cfg_42) 42 =
     Inr two_artifacts"
  by (simp add: mockRM_client_def mockRM_GetRelease_def mock_two_artifacts_def)

lemma mock_first_artifact_specific:
  "GetRelease (mockRM_client mock_first_artifact) (AVS test_cfg_42) (OperatorSetID test_cfg_42) 42 =
     Inr (two_artifacts\<lparr>Artifacts := [first_artifact]\<rparr>)"
  by (simp add: mockRM_client_def mockRM_GetRelease_def mock_first_artifact_def)

lemma first_artifact_reference:
  "BuildReference (Registry first_artifact) (Digest32ToSha256String (Digest32 first_artifact)) =
     Inr ''first.io/image@sha256:1100000000000000000000000000000000000000000000000000000000000000''"
  by code_simp

lemma captureDocker_zero_pulls:
  "fst (Pull captureDocker_Docker reference captureDocker_zero) = None"
  by (simp add: captureDocker_Docker_def captureDocker_Pull_def captureDocker_zero_def)

section \<open>Properties of the controller\<close>

text \<open>
  C1, as stated: whether the latest release or a specific release id was requested, a
  failure of release resolution whose text contains \<open>arithmetic underflow\<close> or
  \<open>NoReleases\<close> is rewritten into the guidance for publishing a first release. With a
  specific release id the code looks for \<open>array out-of-bounds\<close> only; any other error,
  this one included, is returned behind the prefix \<open>failed to get release <id>:\<close>.
\<close>

theorem Execute_specific_underflow_counterexample:
  "ReleaseID test_cfg_42 = Some 42 \<and>
   GetRelease (mockRM_client mock_underflow) (AVS test_cfg_42) (OperatorSetID test_cfg_42) 42 =
     Inl underflow_error \<and>
   Contains underflow_error ''arithmetic underflow'' \<and>
   fst (Execute example_Hex \<lparr>RM = mockRM_client mock_underflow, Docker = captureDocker_Docker\<rparr>
          test_cfg_42 captureDocker_zero) =
     Some ''failed to get release 42: execution reverted: panic: arithmetic underflow or overflow (0x11)'' \<and>
   \<not> Contains ''failed to get release 42: execution reverted: panic: arithmetic underflow or overflow (0x11)''
         ''no releases available''"
  by code_simp


text \<open>
  C1, amended: a failure of release resolution whose text contains
  \<open>arithmetic underflow\<close> or \<open>NoReleases\<close> is treated according to the request.
  When the latest release is requested, \<open>Execute\<close> returns the guidance
  \<open>no releases available for this operator set\<close>, with the command that publishes a
  release and the configuration in use. When a specific release id is requested, the
  error is not rewritten into that guidance: \<open>Execute\<close> returns
  \<open>release ID <id> does not exist\<close> if the text also contains
  \<open>array out-of-bounds\<close>, and \<open>failed to get release <id>: <error text>\<close>
  otherwise. In both cases the container runtime is left as it was.
\<close>

theorem Execute_latest_no_releases:
  assumes "Contains errMsg ''arithmetic underflow'' \<or> Contains errMsg ''NoReleases''"
  shows "(ReleaseID cfg = None \<and>
          GetLatestRelease rm (AVS cfg) (OperatorSetID cfg) = Inl errMsg \<longrightarrow>
            Execute Hex \<lparr>RM = rm, Docker = dk\<rparr> cfg s =
              (Some (''no releases available for this operator set\<newline>\<newline>To push a release, run:\<newline>  flickr push --image <your-image>\<newline>\<newline>Current configuration:\<newline>  AVS: ''
                     @ Hex (AVS cfg) @ ''\<newline>  Operator Set: ''
                     @ fmt_d (unat (OperatorSetID cfg))), s)) \<and>
         (ReleaseID cfg = Some releaseID \<and>
          GetRelease rm (AVS cfg) (OperatorSetID cfg) releaseID = Inl errMsg \<longrightarrow>
            Execute Hex \<lparr>RM = rm, Docker = dk\<rparr> cfg s =
              (Some (if Contains errMsg ''array out-of-bounds''
                     then ''release ID '' @ fmt_d (unat releaseID) @ '' does not exist''
                     else ''failed to get release '' @ fmt_d (unat releaseID) @ '': '' @ errMsg),
               s) \<and>
            fst (Execute Hex \<lparr>RM = rm, Docker = dk\<rparr> cfg s) \<noteq>
              Some (''no releases available for this operator set\<newline>\<newline>To push a release, run:\<newline>  flickr push --image <your-image>\<newline>\<newline>Current configuration:\<newline>  AVS: ''
                    @ Hex (AVS cfg) @ ''\<newline>  Operator Set: ''
                    @ fmt_d (unat (OperatorSetID cfg))))"
proof (intro conjI impI)
  assume "ReleaseID cfg = None \<and>
          GetLatestRelease rm (AVS cfg) (OperatorSetID cfg) = Inl errMsg"
  then show "Execute Hex \<lparr>RM = rm, Docker = dk\<rparr> cfg s =
              (Some (''no releases available for this operator set\<newline>\<newline>To push a release, run:\<newline>  flickr push --image <your-image>\<newline>\<newline>Current configuration:\<newline>  AVS: ''
                     @ Hex (AVS cfg) @ ''\<newline>  Operator Set: ''
                     @ fmt_d (unat (OperatorSetID cfg))), s)"
    using assms by (simp add: Execute_latest_no_releases_aux)
next
  assume a: "ReleaseID cfg = Some releaseID \<and>
          GetRelease rm (AVS cfg) (OperatorSetID cfg) releaseID = Inl errMsg"
  then have e: "Execute Hex \<lparr>RM = rm, Docker = dk\<rparr> cfg s =
              (Some (if Contains errMsg ''array out-of-bounds''
                     then ''release ID '' @ fmt_d (unat releaseID) @ '' does not exist''
                     else ''failed to get release '' @ fmt_d (unat releaseID) @ '': '' @ errMsg),
               s)"
    by (simp add: Execute_specific_failure)
  then show "Execute Hex \<lparr>RM = rm, Docker = dk\<rparr> cfg s =
              (Some (if Contains errMsg ''array out-of-bounds''
                     then ''release ID '' @ fmt_d (unat releaseID) @ '' does not exist''
                     else ''failed to get release '' @ fmt_d (unat releaseID) @ '': '' @ errMsg),
               s)" .
  show "fst (Execute Hex \<lparr>RM = rm, Docker = dk\<rparr> cfg s) \<noteq>
              Some (''no releases available for this operator set\<newline>\<newline>To push a release, run:\<newline>  flickr push --image <your-image>\<newline>\<newline>Current configuration:\<newline>  AVS: ''
                    @ Hex (AVS cfg) @ ''\<newline>  Operator Set: ''
                    @ fmt_d (unat (OperatorSetID cfg)))"
    unfolding e by simp
qed

theorem Execute_latest_no_releases_witness:
  "(Contains underflow_error ''arithmetic underflow'' \<or> Contains underflow_error ''NoReleases'') \<and>
   ReleaseID test_cfg = None \<and>
   GetLatestRelease (mockRM_client mock_underflow) (AVS test_cfg) (OperatorSetID test_cfg) =
     Inl underflow_error \<and>
   Execute example_Hex \<lparr>RM = mockRM_client mock_underflow, Docker = captureDocker_Docker\<rparr>
       test_cfg captureDocker_zero =
     (Some ''no releases available for this operator set\<newline>\<newline>To push a release, run:\<newline>  flickr push --image <your-image>\<newline>\<newline>Current configuration:\<newline>  AVS: 0x1234567890123456789012345678901234567890\<newline>  Operator Set: 1'',
      captureDocker_zero) \<and>
   ReleaseID test_cfg_42 = Some 42 \<and>
   GetRelease (mockRM_client mock_underflow) (AVS test_cfg_42) (OperatorSetID test_cfg_42) 42 =
     Inl underflow_error \<and>
   Execute example_Hex \<lparr>RM = mockRM_client mock_underflow, Docker = captureDocker_Docker\<rparr>
       test_cfg_42 captureDocker_zero =
     (Some (''failed to get release 42: '' @ underflow_error), captureDocker_zero)"
proof -
  note T = Execute_latest_no_releases [OF underflow_error_matches]
  from T [of test_cfg "mockRM_client mock_underflow" example_Hex captureDocker_Docker
            captureDocker_zero 0]
       test_cfg_latest mock_underflow_latest
  have 1: "Execute example_Hex \<lparr>RM = mockRM_client mock_underflow, Docker = captureDocker_Docker\<rparr>
       test_cfg captureDocker_zero =
     (Some ''no releases available for this operator set\<newline>\<newline>To push a release, run:\<newline>  flickr push --image <your-image>\<newline>\<newline>Current configuration:\<newline>  AVS: 0x1234567890123456789012345678901234567890\<newline>  Operator Set: 1'',
      captureDocker_zero)"
    by (simp add: example_Hex_test_avs fmt_d_test_opset)
  from T [of test_cfg_42 "mockRM_client mock_underflow" example_Hex captureDocker_Docker
            captureDocker_zero 42]
       test_cfg_42_specific mock_underflow_specific underflow_error_not_bounds
  have 2: "Execute example_Hex \<lparr>RM = mockRM_client mock_underflow, Docker = captureDocker_Docker\<rparr>
       test_cfg_42 captureDocker_zero =
     (Some (''failed to get release 42: '' @ underflow_error), captureDocker_zero)"
    by (simp add: fmt_d_42)
  from 1 2 underflow_error_matches test_cfg_latest mock_underflow_latest
       test_cfg_42_specific mock_underflow_specific
  show ?thesis by simp
qed

theorem Execute_no_artifacts_message_counterexample:
  "fst (Execute example_Hex \<lparr>RM = mockRM_client mock_no_artifacts, Docker = captureDocker_Docker\<rparr>
          test_cfg captureDocker_zero) = Some ''no artifacts in release'' \<and>
   \<not> Contains ''no artifacts in release'' ''flickr push'' \<and>
   \<not> Contains ''no artifacts in release'' (example_Hex (AVS test_cfg))"
  by code_simp


text \<open>
  C2, amended: whenever release resolution fails with the guidance
  \<open>no releases available\<close>, the message includes the command
  \<open>flickr push --image <your-image>\<close> and echoes the operator-set key: the AVS
  address in hexadecimal after \<open>AVS:\<close> and the operator-set id in decimal after
  \<open>Operator Set:\<close>.
\<close>

theorem Execute_no_releases_message:
  assumes "ReleaseID cfg = None"
    and "GetLatestRelease rm (AVS cfg) (OperatorSetID cfg) = Inl errMsg"
    and "Contains errMsg ''arithmetic underflow'' \<or> Contains errMsg ''NoReleases''"
  shows "\<exists>msg. fst (Execute Hex \<lparr>RM = rm, Docker = dk\<rparr> cfg s) = Some msg \<and>
           Contains msg ''flickr push --image <your-image>'' \<and>
           Contains msg (''AVS: '' @ Hex (AVS cfg)) \<and>
           Contains msg (''Operator Set: '' @ fmt_d (unat (OperatorSetID cfg)))"
proof -
  let ?msg = "''no releases available for this operator set\<newline>\<newline>To push a release, run:\<newline>  flickr push --image <your-image>\<newline>\<newline>Current configuration:\<newline>  AVS: ''
           @ Hex (AVS cfg) @ ''\<newline>  Operator Set: '' @ fmt_d (unat (OperatorSetID cfg))"
  have e: "fst (Execute Hex \<lparr>RM = rm, Docker = dk\<rparr> cfg s) = Some ?msg"
    by (simp add: Execute_latest_no_releases_aux [OF assms])
  have 1: "Contains ?msg ''flickr push --image <your-image>''"
    using Contains_mid [of "''no releases available for this operator set\<newline>\<newline>To push a release, run:\<newline>  ''"
        "''flickr push --image <your-image>''"
        "''\<newline>\<newline>Current configuration:\<newline>  AVS: '' @ Hex (AVS cfg) @ ''\<newline>  Operator Set: ''
           @ fmt_d (unat (OperatorSetID cfg))"]
    by simp
  have 2: "Contains ?msg (''AVS: '' @ Hex (AVS cfg))"
    using Contains_mid [of "''no releases available for this operator set\<newline>\<newline>To push a release, run:\<newline>  flickr push --image <your-image>\<newline>\<newline>Current configuration:\<newline>  ''"
        "''AVS: '' @ Hex (AVS cfg)"
        "''\<newline>  Operator Set: '' @ fmt_d (unat (OperatorSetID cfg))"]
    by simp
  have 3: "Contains ?msg (''Operator Set: '' @ fmt_d (unat (OperatorSetID cfg)))"
    using Contains_mid [of "''no releases available for this operator set\<newline>\<newline>To push a release, run:\<newline>  flickr push --image <your-image>\<newline>\<newline>Current configuration:\<newline>  AVS: '' @ Hex (AVS cfg) @ ''\<newline>  ''"
        "''Operator Set: '' @ fmt_d (unat (OperatorSetID cfg))" "[]"]
    by simp
  from e 1 2 3 show ?thesis by blast
qed

theorem Execute_no_releases_message_witness:
  "ReleaseID test_cfg = None \<and>
   GetLatestRelease (mockRM_client mock_underflow) (AVS test_cfg) (OperatorSetID test_cfg) =
     Inl underflow_error \<and>
   (Contains underflow_error ''arithmetic underflow'' \<or> Contains underflow_error ''NoReleases'') \<and>
   (\<exists>msg. fst (Execute example_Hex
                  \<lparr>RM = mockRM_client mock_underflow, Docker = captureDocker_Docker\<rparr>
                  test_cfg captureDocker_zero) = Some msg \<and>
           Contains msg ''flickr push --image <your-image>'' \<and>
           Contains msg ''AVS: 0x1234567890123456789012345678901234567890'' \<and>
           Contains msg ''Operator Set: 1'')"
  using Execute_no_releases_message
          [OF test_cfg_latest mock_underflow_latest underflow_error_matches,
           of example_Hex captureDocker_Docker captureDocker_zero]
        test_cfg_latest mock_underflow_latest underflow_error_matches
  by (simp add: example_Hex_test_avs fmt_d_test_opset)


text \<open>
  C3. When the resolved release (the latest one or the one with the requested id) has no
  artifact, \<open>Execute\<close> fails with \<open>no artifacts in release\<close>, whatever the
  release's \<open>UpgradeByTime\<close> is, and calls neither \<open>Pull\<close> nor \<open>Run\<close>: the
  state of every runtime is unchanged, and the list of calls of a traced runtime stays
  empty.
\<close>

theorem Execute_no_artifacts:
  assumes "(ReleaseID cfg = None \<and>
            GetLatestRelease rm (AVS cfg) (OperatorSetID cfg) = Inr (rel, relID)) \<or>
           (ReleaseID cfg = Some relID \<and>
            GetRelease rm (AVS cfg) (OperatorSetID cfg) relID = Inr rel)"
    and "Artifacts rel = []"
  shows "Execute Hex \<lparr>RM = rm, Docker = dk\<rparr> cfg s = (Some ''no artifacts in release'', s) \<and>
         Execute Hex \<lparr>RM = rm, Docker = traced dk\<rparr> cfg ([], s) =
           (Some ''no artifacts in release'', ([], s))"
  by (simp add: Execute_empty [OF assms])

theorem Execute_no_artifacts_witness:
  "ReleaseID test_cfg = None \<and>
   GetLatestRelease (mockRM_client mock_no_artifacts) (AVS test_cfg) (OperatorSetID test_cfg) =
     Inr (no_artifacts, 1) \<and>
   Artifacts no_artifacts = [] \<and>
   Execute example_Hex \<lparr>RM = mockRM_client mock_no_artifacts, Docker = captureDocker_Docker\<rparr>
       test_cfg captureDocker_zero =
     (Some ''no artifacts in release'', captureDocker_zero) \<and>
   Execute example_Hex
       \<lparr>RM = mockRM_client mock_no_artifacts, Docker = traced captureDocker_Docker\<rparr>
       test_cfg ([], captureDocker_zero) =
     (Some ''no artifacts in release'', ([], captureDocker_zero))"
proof -
  have r: "GetLatestRelease (mockRM_client mock_no_artifacts) (AVS test_cfg) (OperatorSetID test_cfg) =
     Inr (no_artifacts, 1)"
    by (simp add: mockRM_client_def mockRM_GetLatestRelease_def mock_no_artifacts_def)
  have a: "Artifacts no_artifacts = []"
    by (simp add: no_artifacts_def)
  from Execute_no_artifacts [OF disjI1 [OF conjI [OF test_cfg_latest r]] a,
         of example_Hex captureDocker_Docker captureDocker_zero]
       test_cfg_latest r a
  show ?thesis by simp
qed


text \<open>
  C4. For a release with two or more artifacts, resolved as the latest release or by its
  id, the calls \<open>Execute\<close> makes to the runtime are fixed by the first artifact: none
  when no reference can be built from its registry and digest; otherwise \<open>Pull\<close> with
  that reference and, when the pull succeeds, \<open>Run\<close> with the same reference and
  with options taken from the configuration, the release id and the upgrade deadline.
  So every call carries the first artifact's reference, a successful run makes exactly
  the two calls, and nothing of the other artifacts reaches the runtime: the run is, call
  for call and result for result, the run on the release cut down to its first artifact.
\<close>

theorem Execute_first_artifact_only:
  assumes res: "(ReleaseID cfg = None \<and>
            GetLatestRelease rm (AVS cfg) (OperatorSetID cfg) = Inr (rel, relID)) \<or>
           (ReleaseID cfg = Some relID \<and>
            GetRelease rm (AVS cfg) (OperatorSetID cfg) relID = Inr rel)"
    and arts: "Artifacts rel = art # other # rest"
    and res': "(ReleaseID cfg = None \<and>
            GetLatestRelease rm' (AVS cfg) (OperatorSetID cfg) = Inr (rel\<lparr>Artifacts := [art]\<rparr>, relID)) \<or>
           (ReleaseID cfg = Some relID \<and>
            GetRelease rm' (AVS cfg) (OperatorSetID cfg) relID = Inr (rel\<lparr>Artifacts := [art]\<rparr>))"
  shows "fst (snd (Execute Hex \<lparr>RM = rm, Docker = traced dk\<rparr> cfg ([], s))) =
           (case BuildReference (Registry art) (Digest32ToSha256String (Digest32 art)) of
              Inl e \<Rightarrow> []
            | Inr reference \<Rightarrow>
                if fst (Pull dk reference s) = None
                then [PullCall reference,
                      RunCall reference
                        \<lparr>opt_Name = Name cfg, opt_Detached = Detached cfg,
                         opt_Env = [''AVS_ADDRESS'' \<mapsto> Hex (AVS cfg),
                                    ''OPERATOR_SET_ID'' \<mapsto> fmt_d (unat (OperatorSetID cfg)),
                                    ''RELEASE_ID'' \<mapsto> fmt_d (unat relID),
                                    ''UPGRADE_BY_TIME'' \<mapsto> fmt_d (unat (UpgradeByTime rel))]
                                   ++ Env cfg,
                         opt_Cmd = Cmd cfg\<rparr>]
                else [PullCall reference]) \<and>
         (\<forall>call \<in> set (fst (snd (Execute Hex \<lparr>RM = rm, Docker = traced dk\<rparr> cfg ([], s)))).
            BuildReference (Registry art) (Digest32ToSha256String (Digest32 art)) =
              Inr (call_ref call)) \<and>
         (fst (Execute Hex \<lparr>RM = rm, Docker = traced dk\<rparr> cfg ([], s)) = None \<longrightarrow>
            (\<exists>reference opts.
               fst (snd (Execute Hex \<lparr>RM = rm, Docker = traced dk\<rparr> cfg ([], s))) =
                 [PullCall reference, RunCall reference opts])) \<and>
         Execute Hex \<lparr>RM = rm, Docker = dk\<rparr> cfg s = Execute Hex \<lparr>RM = rm', Docker = dk\<rparr> cfg s"
proof (intro conjI)
  note C = Execute_traced_calls [OF res arts, of Hex dk s]
  show "fst (snd (Execute Hex \<lparr>RM = rm, Docker = traced dk\<rparr> cfg ([], s))) =
           (case BuildReference (Registry art) (Digest32ToSha256String (Digest32 art)) of
              Inl e \<Rightarrow> []
            | Inr reference \<Rightarrow>
                if fst (Pull dk reference s) = None
                then [PullCall reference,
                      RunCall reference
                        \<lparr>opt_Name = Name cfg, opt_Detached = Detached cfg,
                         opt_Env = [''AVS_ADDRESS'' \<mapsto> Hex (AVS cfg),
                                    ''OPERATOR_SET_ID'' \<mapsto> fmt_d (unat (OperatorSetID cfg)),
                                    ''RELEASE_ID'' \<mapsto> fmt_d (unat relID),
                                    ''UPGRADE_BY_TIME'' \<mapsto> fmt_d (unat (UpgradeByTime rel))]
                                   ++ Env cfg,
                         opt_Cmd = Cmd cfg\<rparr>]
                else [PullCall reference])"
    by (rule C)
  show "\<forall>call \<in> set (fst (snd (Execute Hex \<lparr>RM = rm, Docker = traced dk\<rparr> cfg ([], s)))).
            BuildReference (Registry art) (Digest32ToSha256String (Digest32 art)) =
              Inr (call_ref call)"
    unfolding C by (auto split: sum.splits)
  note E = Execute_first [OF res arts, of Hex "traced dk" "([], s)"]
  show "fst (Execute Hex \<lparr>RM = rm, Docker = traced dk\<rparr> cfg ([], s)) = None \<longrightarrow>
            (\<exists>reference opts.
               fst (snd (Execute Hex \<lparr>RM = rm, Docker = traced dk\<rparr> cfg ([], s))) =
                 [PullCall reference, RunCall reference opts])"
    unfolding E by (auto simp: traced_Pull traced_Run split: sum.splits option.splits prod.splits)
  have "Artifacts (rel\<lparr>Artifacts := [art]\<rparr>) = art # []" by simp
  from Execute_first [OF res' this, of Hex dk s] Execute_first [OF res arts, of Hex dk s]
  show "Execute Hex \<lparr>RM = rm, Docker = dk\<rparr> cfg s = Execute Hex \<lparr>RM = rm', Docker = dk\<rparr> cfg s"
    by (simp cong: sum.case_cong prod.case_cong option.case_cong)
qed

theorem Execute_first_artifact_only_witness:
  "ReleaseID test_cfg = None \<and>
   GetLatestRelease (mockRM_client mock_two_artifacts) (AVS test_cfg) (OperatorSetID test_cfg) =
     Inr (two_artifacts, 9) \<and>
   Artifacts two_artifacts = [first_artifact, second_artifact] \<and>
   GetLatestRelease (mockRM_client mock_first_artifact) (AVS test_cfg) (OperatorSetID test_cfg) =
     Inr (two_artifacts\<lparr>Artifacts := [first_artifact]\<rparr>, 9) \<and>
   BuildReference (Registry first_artifact) (Digest32ToSha256String (Digest32 first_artifact)) =
     Inr ''first.io/image@sha256:1100000000000000000000000000000000000000000000000000000000000000'' \<and>
   map call_ref
     (fst (snd (Execute example_Hex
                  \<lparr>RM = mockRM_client mock_two_artifacts, Docker = traced captureDocker_Docker\<rparr>
                  test_cfg ([], captureDocker_zero)))) =
     [''first.io/image@sha256:1100000000000000000000000000000000000000000000000000000000000000'',
      ''first.io/image@sha256:1100000000000000000000000000000000000000000000000000000000000000''] \<and>
   Execute example_Hex \<lparr>RM = mockRM_client mock_two_artifacts, Docker = captureDocker_Docker\<rparr>
       test_cfg captureDocker_zero =
   Execute example_Hex \<lparr>RM = mockRM_client mock_first_artifact, Docker = captureDocker_Docker\<rparr>
       test_cfg captureDocker_zero \<and>
   ReleaseID test_cfg_42 = Some 42 \<and>
   GetRelease (mockRM_client mock_two_artifacts) (AVS test_cfg_42) (OperatorSetID test_cfg_42) 42 =
     Inr two_artifacts \<and>
   GetRelease (mockRM_client mock_first_artifact) (AVS test_cfg_42) (OperatorSetID test_cfg_42) 42 =
     Inr (two_artifacts\<lparr>Artifacts := [first_artifact]\<rparr>) \<and>
   map call_ref
     (fst (snd (Execute example_Hex
                  \<lparr>RM = mockRM_client mock_two_artifacts, Docker = traced captureDocker_Docker\<rparr>
                  test_cfg_42 ([], captureDocker_zero)))) =
     [''first.io/image@sha256:1100000000000000000000000000000000000000000000000000000000000000'',
      ''first.io/image@sha256:1100000000000000000000000000000000000000000000000000000000000000''] \<and>
   Execute example_Hex \<lparr>RM = mockRM_client mock_two_artifacts, Docker = captureDocker_Docker\<rparr>
       test_cfg_42 captureDocker_zero =
   Execute example_Hex \<lparr>RM = mockRM_client mock_first_artifact, Docker = captureDocker_Docker\<rparr>
       test_cfg_42 captureDocker_zero"
proof -
  note L = Execute_first_artifact_only
         [OF disjI1 [OF conjI [OF test_cfg_latest mock_two_artifacts_latest]] two_artifacts_list
             disjI1 [OF conjI [OF test_cfg_latest mock_first_artifact_latest]],
          of example_Hex captureDocker_Docker captureDocker_zero]
  note S = Execute_first_artifact_only
         [OF disjI2 [OF conjI [OF test_cfg_42_specific mock_two_artifacts_specific]]
             two_artifacts_list
             disjI2 [OF conjI [OF test_cfg_42_specific mock_first_artifact_specific]],
          of example_Hex captureDocker_Docker captureDocker_zero]
  have l1: "map call_ref
     (fst (snd (Execute example_Hex
                  \<lparr>RM = mockRM_client mock_two_artifacts, Docker = traced captureDocker_Docker\<rparr>
                  test_cfg ([], captureDocker_zero)))) =
     [''first.io/image@sha256:1100000000000000000000000000000000000000000000000000000000000000'',
      ''first.io/image@sha256:1100000000000000000000000000000000000000000000000000000000000000'']"
    unfolding L [THEN conjunct1] first_artifact_reference captureDocker_zero_pulls
    by simp
  have s1: "map call_ref
     (fst (snd (Execute example_Hex
                  \<lparr>RM = mockRM_client mock_two_artifacts, Docker = traced captureDocker_Docker\<rparr>
                  test_cfg_42 ([], captureDocker_zero)))) =
     [''first.io/image@sha256:1100000000000000000000000000000000000000000000000000000000000000'',
      ''first.io/image@sha256:1100000000000000000000000000000000000000000000000000000000000000'']"
    unfolding S [THEN conjunct1] first_artifact_reference captureDocker_zero_pulls
    by simp
  note l2 = L [THEN conjunct2, THEN conjunct2, THEN conjunct2]
  note s2 = S [THEN conjunct2, THEN conjunct2, THEN conjunct2]
  show ?thesis
    by (intro conjI test_cfg_latest mock_two_artifacts_latest mock_first_artifact_latest
          first_artifact_reference l1 l2 test_cfg_42_specific mock_two_artifacts_specific
          mock_first_artifact_specific s1 s2)
       (simp add: two_artifacts_def)
qed

theorem Execute_env:
  assumes ok: "fst (Execute Hex \<lparr>RM = rm, Docker = traced dk\<rparr> cfg ([], s)) = None"
  shows "\<exists>rel relID reference opts.
           ((ReleaseID cfg = None \<and>
             GetLatestRelease rm (AVS cfg) (OperatorSetID cfg) = Inr (rel, relID)) \<or>
            (ReleaseID cfg = Some relID \<and>
             GetRelease rm (AVS cfg) (OperatorSetID cfg) relID = Inr rel)) \<and>
           fst (snd (Execute Hex \<lparr>RM = rm, Docker = traced dk\<rparr> cfg ([], s))) =
             [PullCall reference, RunCall reference opts] \<and>
           opt_Env opts ''AVS_ADDRESS'' =
             Some (case Env cfg ''AVS_ADDRESS'' of None \<Rightarrow> Hex (AVS cfg) | Some v \<Rightarrow> v) \<and>
           opt_Env opts ''OPERATOR_SET_ID'' =
             Some (case Env cfg ''OPERATOR_SET_ID'' of
                     None \<Rightarrow> fmt_d (unat (OperatorSetID cfg)) | Some v \<Rightarrow> v) \<and>
           opt_Env opts ''RELEASE_ID'' =
             Some (case Env cfg ''RELEASE_ID'' of None \<Rightarrow> fmt_d (unat relID) | Some v \<Rightarrow> v) \<and>
           opt_Env opts ''UPGRADE_BY_TIME'' =
             Some (case Env cfg ''UPGRADE_BY_TIME'' of
                     None \<Rightarrow> fmt_d (unat (UpgradeByTime rel)) | Some v \<Rightarrow> v) \<and>
           (\<forall>k v. Env cfg k = Some v \<longrightarrow> opt_Env opts k = Some v)"
proof -
  obtain rel relID where res:
    "(ReleaseID cfg = None \<and>
        GetLatestRelease rm (AVS cfg) (OperatorSetID cfg) = Inr (rel, relID)) \<or>
     (ReleaseID cfg = Some relID \<and>
        GetRelease rm (AVS cfg) (OperatorSetID cfg) relID = Inr rel)"
    using ok unfolding Execute_def
    by (auto split: option.splits sum.splits if_splits)
  have ne: "Artifacts rel \<noteq> []"
  proof
    assume "Artifacts rel = []"
    with res ok show False
      by (subst (asm) Execute_resolved [where rel = rel and relID = relID]) simp_all
  qed
  then obtain art rest where arts: "Artifacts rel = art # rest"
    by (cases "Artifacts rel") auto
  note E = Execute_first [OF _ arts, of cfg rm relID Hex "traced dk" "([], s)", simplified, OF res]
  from ok [unfolded E] obtain reference where
    calls: "fst (snd (Execute Hex \<lparr>RM = rm, Docker = traced dk\<rparr> cfg ([], s))) = [PullCall reference,
              RunCall reference \<lparr>opt_Name = Name cfg, opt_Detached = Detached cfg,
                        opt_Env = [''AVS_ADDRESS'' \<mapsto> Hex (AVS cfg),
                                   ''OPERATOR_SET_ID'' \<mapsto> fmt_d (unat (OperatorSetID cfg)),
                                   ''RELEASE_ID'' \<mapsto> fmt_d (unat relID),
                                   ''UPGRADE_BY_TIME'' \<mapsto> fmt_d (unat (UpgradeByTime rel))]
                                  ++ Env cfg,
                        opt_Cmd = Cmd cfg\<rparr>]"
    unfolding E
    by (auto simp: traced_Pull traced_Run split: sum.splits option.splits prod.splits)
  show ?thesis
    apply (rule exI [of _ rel], rule exI [of _ relID], rule exI [of _ reference])
    apply (rule exI)
    apply (intro conjI)
          apply (rule res)
         apply (rule calls)
        apply (simp_all add: map_add_def split: option.splits)
    done
qed

theorem Execute_env_witness:
  "fst (Execute example_Hex
          \<lparr>RM = mockRM_client mock_two_artifacts, Docker = traced captureDocker_Docker\<rparr>
          test_cfg_pinned ([], captureDocker_zero)) = None \<and>
   (\<exists>reference opts.
      fst (snd (Execute example_Hex
                  \<lparr>RM = mockRM_client mock_two_artifacts, Docker = traced captureDocker_Docker\<rparr>
                  test_cfg_pinned ([], captureDocker_zero))) =
        [PullCall reference, RunCall reference opts] \<and>
      opt_Env opts ''AVS_ADDRESS'' = Some ''0x1234567890123456789012345678901234567890'' \<and>
      opt_Env opts ''OPERATOR_SET_ID'' = Some ''1'' \<and>
      opt_Env opts ''RELEASE_ID'' = Some ''pinned'' \<and>
      opt_Env opts ''UPGRADE_BY_TIME'' = Some ''200'' \<and>
      opt_Env opts ''CUSTOM_VAR'' = Some ''custom_value'')"
proof -
  have ok: "fst (Execute example_Hex
          \<lparr>RM = mockRM_client mock_two_artifacts, Docker = traced captureDocker_Docker\<rparr>
          test_cfg_pinned ([], captureDocker_zero)) = None"
    by code_simp
  have c: "ReleaseID test_cfg_pinned = None"
    "Env test_cfg_pinned = [''CUSTOM_VAR'' \<mapsto> ''custom_value'', ''RELEASE_ID'' \<mapsto> ''pinned'']"
    by (simp_all add: test_cfg_pinned_def test_cfg_def)
  have r: "GetLatestRelease (mockRM_client mock_two_artifacts) (AVS test_cfg_pinned)
             (OperatorSetID test_cfg_pinned) = Inr (two_artifacts, 9)"
    by (simp add: mockRM_client_def mockRM_GetLatestRelease_def mock_two_artifacts_def)
  have v: "example_Hex (AVS test_cfg_pinned) = ''0x1234567890123456789012345678901234567890''"
    "fmt_d (unat (OperatorSetID test_cfg_pinned)) = ''1''"
    "fmt_d (unat (UpgradeByTime two_artifacts)) = ''200''"
    by code_simp+
  from Execute_env [OF ok] obtain rel relID reference opts where
    res: "GetLatestRelease (mockRM_client mock_two_artifacts) (AVS test_cfg_pinned)
             (OperatorSetID test_cfg_pinned) = Inr (rel, relID)"
    and calls: "fst (snd (Execute example_Hex
                  \<lparr>RM = mockRM_client mock_two_artifacts, Docker = traced captureDocker_Docker\<rparr>
                  test_cfg_pinned ([], captureDocker_zero))) =
        [PullCall reference, RunCall reference opts]"
    and env: "opt_Env opts ''AVS_ADDRESS'' =
             Some (case Env test_cfg_pinned ''AVS_ADDRESS'' of
                     None \<Rightarrow> example_Hex (AVS test_cfg_pinned) | Some v \<Rightarrow> v)"
      "opt_Env opts ''OPERATOR_SET_ID'' =
             Some (case Env test_cfg_pinned ''OPERATOR_SET_ID'' of
                     None \<Rightarrow> fmt_d (unat (OperatorSetID test_cfg_pinned)) | Some v \<Rightarrow> v)"
      "opt_Env opts ''RELEASE_ID'' =
             Some (case Env test_cfg_pinned ''RELEASE_ID'' of
                     None \<Rightarrow> fmt_d (unat relID) | Some v \<Rightarrow> v)"
      "opt_Env opts ''UPGRADE_BY_TIME'' =
             Some (case Env test_cfg_pinned ''UPGRADE_BY_TIME'' of
                     None \<Rightarrow> fmt_d (unat (UpgradeByTime rel)) | Some v \<Rightarrow> v)"
    and over: "\<forall>k v. Env test_cfg_pinned k = Some v \<longrightarrow> opt_Env opts k = Some v"
    using c(1) by auto
  from res r have rel: "rel = two_artifacts" by simp
  from over c(2) have "opt_Env opts ''CUSTOM_VAR'' = Some ''custom_value''" by simp
  with ok calls env rel show ?thesis
    by (simp add: c(2) v)
qed

section \<open>Facts about the write operations\<close>

lemma write_ops_present:
  assumes "signer c = Some sg"
    and "ChainID (ethClient c) = Inr chainID"
    and "PendingNonceAt (ethClient c) (Address sg) = Inr nonce"
    and "SuggestGasPrice (ethClient c) = Inr gasPrice"
    and "rmContract c = presenting a unsignedTx"
  shows "PublishMetadataURI c avs opSetID uri gasLimit =
           (case (if a \<noteq> Address sg then Inl ''unexpected signer address''
                  else SignTransaction sg unsignedTx chainID) of
              Inl e \<Rightarrow> Inl (''failed to publish metadata URI: '' @ e)
            | Inr tx \<Rightarrow> Inr tx)"
    and "PushRelease c avs opSetID artifacts upgradeByTime gasLimit =
           (case (if a \<noteq> Address sg then Inl ''unexpected signer address''
                  else SignTransaction sg unsignedTx chainID) of
              Inl e \<Rightarrow> Inl (''failed to publish release: '' @ e)
            | Inr tx \<Rightarrow> Inr tx)"
  using assms by (simp_all add: PublishMetadataURI_def PushRelease_def presenting_def)

lemma write_ops_sign_own_address:
  assumes "signer c = Some sg"
    and "ChainID (ethClient c) = Inr chainID"
    and "PendingNonceAt (ethClient c) (Address sg) = Inr nonce"
    and "SuggestGasPrice (ethClient c) = Inr gasPrice"
    and "rmContract c = presenting (Address sg) unsignedTx"
    and "SignTransaction sg unsignedTx chainID = Inr signedTx"
  shows "PublishMetadataURI c avs opSetID uri gasLimit = Inr signedTx \<and>
         PushRelease c avs opSetID artifacts upgradeByTime gasLimit = Inr signedTx"
  using assms(6) write_ops_present [OF assms(1-5)] by simp

section \<open>Properties of the write operations and of the signers\<close>

text \<open>
  C9. In both write operations, \<open>PublishMetadataURI\<close> and \<open>PushRelease\<close>, when the
  transaction-construction layer presents to the signing callback an address other than
  the attached signer's own \<open>Address\<close>, the callback fails with
  \<open>unexpected signer address\<close> whatever the signer's \<open>SignTransaction\<close> would
  answer: no signed transaction comes back, and the operation returns that error behind
  its own prefix.
\<close>

theorem write_ops_reject_foreign_address:
  assumes "signer c = Some sg"
    and "ChainID (ethClient c) = Inr chainID"
    and "PendingNonceAt (ethClient c) (Address sg) = Inr nonce"
    and "SuggestGasPrice (ethClient c) = Inr gasPrice"
    and "rmContract c = presenting a unsignedTx"
    and "a \<noteq> Address sg"
  shows "PublishMetadataURI c avs opSetID uri gasLimit =
           Inl ''failed to publish metadata URI: unexpected signer address'' \<and>
         PushRelease c avs opSetID artifacts upgradeByTime gasLimit =
           Inl ''failed to publish release: unexpected signer address''"
  using assms(6) write_ops_present [OF assms(1-5)] by simp

theorem write_ops_reject_foreign_address_witness:
  "signer mismatched_client = Some test_signer \<and>
   ChainID (ethClient mismatched_client) = Inr 31337 \<and>
   PendingNonceAt (ethClient mismatched_client) (Address test_signer) = Inr 7 \<and>
   SuggestGasPrice (ethClient mismatched_client) = Inr 20000000000 \<and>
   rmContract mismatched_client = presenting test_avs ''unsigned'' \<and>
   test_avs \<noteq> Address test_signer \<and>
   SignTransaction test_signer ''unsigned'' 31337 = Inr ''unsigned+signature'' \<and>
   PublishMetadataURI mismatched_client test_avs 1 ''https://example.com/metadata.json'' 300000 =
     Inl ''failed to publish metadata URI: unexpected signer address'' \<and>
   PushRelease mismatched_client test_avs 1 [first_artifact] 200 300000 =
     Inl ''failed to publish release: unexpected signer address''"
proof -
  have s: "signer mismatched_client = Some test_signer"
    and c: "ChainID (ethClient mismatched_client) = Inr 31337"
    and n: "PendingNonceAt (ethClient mismatched_client) (Address test_signer) = Inr 7"
    and g: "SuggestGasPrice (ethClient mismatched_client) = Inr 20000000000"
    and r: "rmContract mismatched_client = presenting test_avs ''unsigned''"
    by (simp_all add: mismatched_client_def test_eth_def stub_PendingNonceAt_def)
  have a: "test_avs \<noteq> Address test_signer"
    by code_simp
  have t: "SignTransaction test_signer ''unsigned'' 31337 = Inr ''unsigned+signature''"
    by (simp add: test_signer_def stub_SignTransaction_def)
  from write_ops_reject_foreign_address [OF s c n g r a] s c n g r a t
  show ?thesis by simp
qed

text \<open>
  C10. A keystore signer and an ECDSA signer holding the same private key return the same
  result of \<open>SignMessage\<close> on every message, be it a signature, an error or a panic:
  the keystore signer's method builds an ECDSA signer from its own fields and calls that
  signer's method, which reads the private key only.
\<close>

theorem SignMessage_same:
  "ks_privateKey k = es_privateKey e \<Longrightarrow>
   KeystoreSigner_SignMessage TextHash Sign k msg = ECDSASigner_SignMessage TextHash Sign e msg"
  by (simp add: KeystoreSigner_SignMessage_def ECDSASigner_SignMessage_def)

theorem SignMessage_same_witness:
  "ks_privateKey test_keystore = es_privateKey test_ecdsa \<and>
   KeystoreSigner_SignMessage stub_TextHash stub_Sign test_keystore test_message =
     ECDSASigner_SignMessage stub_TextHash stub_Sign test_ecdsa test_message \<and>
   (\<exists>sig. ECDSASigner_SignMessage stub_TextHash stub_Sign test_ecdsa test_message =
            Some (Inr sig) \<and> length sig = 65 \<and> sig ! 64 = 28)"
proof -
  have k: "ks_privateKey test_keystore = es_privateKey test_ecdsa"
    by (simp add: test_keystore_def test_ecdsa_def)
  have v: "case ECDSASigner_SignMessage stub_TextHash stub_Sign test_ecdsa test_message of
             Some (Inr sig) \<Rightarrow> length sig = 65 \<and> sig ! 64 = 28 | _ \<Rightarrow> False"
    by code_simp
  then have "\<exists>sig. ECDSASigner_SignMessage stub_TextHash stub_Sign test_ecdsa test_message =
            Some (Inr sig) \<and> length sig = 65 \<and> sig ! 64 = 28"
    by (auto split: option.splits sum.splits)
  with SignMessage_same [OF k, of stub_TextHash stub_Sign test_message] k
  show ?thesis by simp
qed

end
